theory Spec2Isabelle
  imports Complex_Main
begin

section \<open>Values, errors and the environment of the client\<close>

text \<open>
  The client of \<^verbatim>\<open>SuiteCRM.py\<close> is modelled with explicit state passing. A Python
  \<^verbatim>\<open>str\<close> is a \<open>string\<close> (its UTF-8 bytes), a parsed JSON document is a \<open>json\<close>
  value (numbers are the integers; a Python \<^verbatim>\<open>None\<close> is \<open>JNull\<close>), and every exception
  or \<^verbatim>\<open>exit\<close> of the source is a value of \<open>error\<close>.
\<close>

datatype json =
    JNull
  | JBool bool
  | JNum int
  | JStr string
  | JArr "json list"
  | JObj "(string \<times> json) list"

datatype error =
    SystemExit string
  | TokenExpiredError
  | KeyError string
  | TypeError
  | ZeroDivisionError
  | JSONDecodeError
  | DatabaseFailure string
  | TransportError string

text \<open>
  An HTTP response object: \<open>loads\<close> is what \<^verbatim>\<open>json.loads(data.content)\<close> returns,
  \<open>None\<close> when it raises.
\<close>

record response =
  status_code :: int
  content :: string
  loads :: "json option"

text \<open>
  What one call of a session method does: it raises \<^verbatim>\<open>TokenExpiredError\<close>, raises
  something else, or returns a response.
\<close>

datatype outcome = Expired | Raised string | Returned response

text \<open>What \<^verbatim>\<open>fetch_token\<close> does at the identity provider.\<close>

datatype grant = Granted string | InvalidClient | CustomOAuth2 | GrantFails string

text \<open>
  The local variable \<^verbatim>\<open>data\<close> of \<^verbatim>\<open>request\<close> holds first the serialised payload
  \<^verbatim>\<open>json.dumps({"data": parameters})\<close> and, after a call has returned, the response
  object.
\<close>

datatype pyval = Dumped json | Resp response

datatype event =
    Call string string "pyval option"
  | FetchToken string string string

text \<open>
  The client object together with its surroundings. \<open>transport\<close> and \<open>idp\<close> script
  the answers of the network: the \<open>n\<close>-th call through the session and the \<open>n\<close>-th
  token grant. \<open>trace\<close> records every call that leaves the process, \<open>token_file\<close> is
  the content of \<^verbatim>\<open>AccessToken.txt\<close> (\<open>None\<close>: no such file).
\<close>

record world =
  cfg_url :: string
  cfg_client_id :: string
  cfg_client_secret :: string
  logout_on_exit :: bool
  has_session :: bool
  has_attr :: "string \<Rightarrow> bool"
  token :: "string option"
  atexit_registered :: bool
  token_file :: "string option"
  transport :: "nat \<Rightarrow> outcome"
  sent :: nat
  idp :: "nat \<Rightarrow> grant"
  fetched :: nat
  trace :: "event list"

section \<open>Strings\<close>

text \<open>\<^verbatim>\<open>needle in haystack\<close> on strings.\<close>

fun contains :: "string \<Rightarrow> string \<Rightarrow> bool" where
  "contains [] needle = (needle = [])"
| "contains (c # cs) needle =
     (if take (length needle) (c # cs) = needle then True else contains cs needle)"

text \<open>\<^verbatim>\<open>sep.join(xs)\<close>.\<close>

fun join :: "string \<Rightarrow> string list \<Rightarrow> string" where
  "join sep [] = []"
| "join sep [x] = x"
| "join sep (x # y # ys) = x @ sep @ join sep (y # ys)"




text \<open>
  \<^verbatim>\<open>urllib.parse.quote(s, safe=...)\<close>: every byte outside the unreserved characters
  and \<open>safe\<close> becomes \<^verbatim>\<open>%XX\<close> in upper-case hexadecimal.
\<close>

definition always_safe :: "char \<Rightarrow> bool" where
  "always_safe c =
     (c \<in> set ''ABCDEFGHIJKLMNOPQRSTUVWXYZabcdefghijklmnopqrstuvwxyz0123456789_.-~'')"

definition hex_digit :: "nat \<Rightarrow> char" where
  "hex_digit n = ''0123456789ABCDEF'' ! n"

definition quote_byte :: "string \<Rightarrow> char \<Rightarrow> string" where
  "quote_byte safe c =
     (if always_safe c \<or> c \<in> set safe then [c]
      else [CHR ''%'', hex_digit (of_char c div 16), hex_digit (of_char c mod 16)])"

definition quote :: "string \<Rightarrow> string \<Rightarrow> string" where
  "quote s safe = concat (map (quote_byte safe) s)"

section \<open>The token file\<close>

text \<open>
  \<^verbatim>\<open>open('AccessToken.txt', 'w+')\<close> creates the file or truncates it to length zero;
  \<^verbatim>\<open>file.read()\<close> and \<^verbatim>\<open>file.write(s)\<close> act on the file just opened.
\<close>

definition open_w_plus :: "world \<Rightarrow> world" where
  "open_w_plus w = w\<lparr>token_file := Some []\<rparr>"

definition file_read :: "world \<Rightarrow> string" where
  "file_read w = (case token_file w of None \<Rightarrow> [] | Some c \<Rightarrow> c)"

definition file_write :: "string \<Rightarrow> world \<Rightarrow> world" where
  "file_write s w = w\<lparr>token_file := Some (file_read w @ s)\<rparr>"

section \<open>\<^verbatim>\<open>SuiteCRM._refresh_token\<close>\<close>

definition tk_url :: "string \<Rightarrow> string" where
  "tk_url u = take (length u - 2) u @ ''access_token''"

definition fetch_token :: "world \<Rightarrow> grant \<times> world" where
  "fetch_token w =
     (idp w (fetched w),
      w\<lparr>fetched := Suc (fetched w),
        trace := trace w @
          [FetchToken (tk_url (cfg_url w)) (cfg_client_id w) (cfg_client_secret w)]\<rparr>)"

definition refresh_token :: "world \<Rightarrow> (error + unit) \<times> world" where
  "refresh_token w =
     (case fetch_token w of
        (Granted t, w1) \<Rightarrow>
          (Inr (), file_write t (open_w_plus (w1\<lparr>token := Some t\<rparr>)))
      | (InvalidClient, w1) \<Rightarrow>
          (Inl (SystemExit ''401 (Unauthorized) - client id/secret''), w1)
      | (CustomOAuth2, w1) \<Rightarrow>
          (Inl (SystemExit ''401 (Unauthorized) - client id''), w1)
      | (GrantFails e, w1) \<Rightarrow> (Inl (TransportError e), w1))"

section \<open>\<^verbatim>\<open>SuiteCRM.request\<close>\<close>

text \<open>
  \<^verbatim>\<open>the_method(url)\<close> when \<^verbatim>\<open>parameters == ''\<close>, and
  \<^verbatim>\<open>the_method(url, data=data)\<close> otherwise, with the current value of \<^verbatim>\<open>data\<close>.
\<close>

definition the_method ::
  "string \<Rightarrow> string \<Rightarrow> json \<Rightarrow> pyval \<Rightarrow> world \<Rightarrow> outcome \<times> world" where
  "the_method m u parameters d w =
     (transport w (sent w),
      w\<lparr>sent := Suc (sent w),
        trace := trace w @
          [Call m u (if parameters = JStr [] then None else Some d)]\<rparr>)"

text \<open>
  The loop \<^verbatim>\<open>while data.status_code == 401 and attempts < 1\<close>. An exception of the
  call inside the loop is not caught.
\<close>

function revoked ::
  "string \<Rightarrow> string \<Rightarrow> json \<Rightarrow> response \<Rightarrow> nat \<Rightarrow> world \<Rightarrow> (error + response) \<times> world"
where
  "revoked m u parameters d attempts w =
     (if status_code d = 401 \<and> attempts < 1 then
        (case refresh_token w of
           (Inl e, w1) \<Rightarrow> (Inl e, w1)
         | (Inr _, w1) \<Rightarrow>
             (case the_method m u parameters (Resp d) w1 of
                (Expired, w2) \<Rightarrow> (Inl TokenExpiredError, w2)
              | (Raised e, w2) \<Rightarrow> (Inl (TransportError e), w2)
              | (Returned d', w2) \<Rightarrow> revoked m u parameters d' (Suc attempts) w2))
      else (Inr d, w))"
  by pat_completeness auto
termination
  by (relation "measure (\<lambda>(m, u, parameters, d, attempts, w). 1 - attempts)") auto

declare revoked.simps [simp del]

text \<open>The part of \<^verbatim>\<open>request\<close> after the retry loop.\<close>

definition conclude :: "response \<Rightarrow> error + json" where
  "conclude d =
     (if status_code d = 401 then
        Inl (SystemExit
          (''401 (Unauthorized) client id/secret has been revoked, '' @
           ''                new token was attempted and failed.''))
      else if status_code d = 400 \<and> contains (content d) ''Database failure.'' then
        Inl (DatabaseFailure (content d))
      else (case loads d of None \<Rightarrow> Inl JSONDecodeError | Some j \<Rightarrow> Inr j))"

text \<open>The \<^verbatim>\<open>try\<close> statement: one retry after \<^verbatim>\<open>TokenExpiredError\<close>.\<close>

definition first_try ::
  "string \<Rightarrow> string \<Rightarrow> json \<Rightarrow> pyval \<Rightarrow> world \<Rightarrow> (error + response) \<times> world" where
  "first_try m u parameters d w =
     (case the_method m u parameters d w of
        (Returned r, w1) \<Rightarrow> (Inr r, w1)
      | (Raised e, w1) \<Rightarrow> (Inl (TransportError e), w1)
      | (Expired, w1) \<Rightarrow>
          (case refresh_token w1 of
             (Inl e, w2) \<Rightarrow> (Inl e, w2)
           | (Inr _, w2) \<Rightarrow>
               (case the_method m u parameters d w2 of
                  (Returned r, w3) \<Rightarrow> (Inr r, w3)
                | (Raised e, w3) \<Rightarrow> (Inl (TransportError e), w3)
                | (Expired, w3) \<Rightarrow> (Inl TokenExpiredError, w3))))"

definition request :: "world \<Rightarrow> string \<Rightarrow> string \<Rightarrow> json \<Rightarrow> (error + json) \<times> world" where
  "request w url m parameters =
     (let u = quote url ''/:?=&'';
          d = Dumped (JObj [(''data'', parameters)])
      in if \<not> has_attr w m then (Inr JNull, w)
         else
           (case first_try m u parameters d w of
              (Inl e, w1) \<Rightarrow> (Inl e, w1)
            | (Inr r, w1) \<Rightarrow>
                (case revoked m u parameters r 0 w1 of
                   (Inl e, w2) \<Rightarrow> (Inl e, w2)
                 | (Inr r', w2) \<Rightarrow> (conclude r', w2))))"

section \<open>\<^verbatim>\<open>SuiteCRM._login\<close> and \<^verbatim>\<open>SuiteCRM._logout\<close>\<close>

definition login :: "world \<Rightarrow> (error + unit) \<times> world" where
  "login w =
     (case
        (if \<not> has_session w then
           (let w1 = open_w_plus (w\<lparr>has_session := True, token := None\<rparr>);
                tok = file_read w1
            in if tok = [] then refresh_token w1
               else (Inr (), w1\<lparr>token := Some tok\<rparr>))
         else refresh_token w)
      of
        (Inl e, w2) \<Rightarrow> (Inl e, w2)
      | (Inr _, w2) \<Rightarrow>
          (Inr (), if logout_on_exit w2 then w2\<lparr>atexit_registered := True\<rparr> else w2))"

definition logout :: "world \<Rightarrow> (error + unit) \<times> world" where
  "logout w =
     (case request w (cfg_url w @ ''/logout'') ''post'' (JStr []) of
        (Inl e, w1) \<Rightarrow> (Inl e, w1)
      | (Inr _, w1) \<Rightarrow> (Inr (), file_write [] (open_w_plus w1)))"

section \<open>\<^verbatim>\<open>Module.get\<close>\<close>

text \<open>
  A keyword filter is either a \<^verbatim>\<open>dict\<close> or any other value, which the f-string
  formats; \<open>Plain\<close> carries that formatted text. The keyword arguments keep their order.
\<close>

datatype filter_value = Plain string | Dict "(string \<times> string) list"

definition operators :: "string \<Rightarrow> string option" where
  "operators = map_of
     [(''='', ''EQ''), (''<>'', ''NEQ''), (''>'', ''GT''),
      (''>='', ''GTE''), (''<'', ''LT''), (''<='', ''LTE'')]"

text \<open>\<^verbatim>\<open>d[key]\<close> on a \<^verbatim>\<open>dict\<close>.\<close>

definition getitem :: "(string \<times> 'a) list \<Rightarrow> string \<Rightarrow> error + 'a" where
  "getitem d k = (case map_of d k of None \<Rightarrow> Inl (KeyError k) | Some v \<Rightarrow> Inr v)"

text \<open>One round of the loop over \<^verbatim>\<open>filters.items()\<close>.\<close>

definition filter_term :: "string \<Rightarrow> string \<Rightarrow> filter_value \<Rightarrow> error + string" where
  "filter_term url field v =
     (case v of
        Dict d \<Rightarrow>
          (case getitem d ''operator'' of
             Inl e \<Rightarrow> Inl e
           | Inr opr \<Rightarrow>
               (case operators opr of
                  None \<Rightarrow> Inl (KeyError opr)
                | Some name \<Rightarrow>
                    (case getitem d ''value'' of
                       Inl e \<Rightarrow> Inl e
                     | Inr x \<Rightarrow>
                         Inr (concat [url, ''['' @ field @ '']'', ''['' @ name @ '']'',
                                      ''='' @ x @ ''and&'']))))
      | Plain x \<Rightarrow> Inr (url @ ''['' @ field @ ''][eq]='' @ x @ ''and&''))"

fun filter_constructor :: "string \<Rightarrow> (string \<times> filter_value) list \<Rightarrow> error + string" where
  "filter_constructor url [] = Inr url"
| "filter_constructor url ((field, v) # fs) =
     (case filter_term url field v of
        Inl e \<Rightarrow> Inl e
      | Inr url' \<Rightarrow> filter_constructor url' fs)"

text \<open>
  The path and query that \<^verbatim>\<open>Module.get\<close> builds before it calls \<^verbatim>\<open>request\<close>.
  \<open>flds\<close> is the argument \<^verbatim>\<open>fields\<close> (\<open>None\<close> by default), \<open>srt\<close> is \<^verbatim>\<open>sort\<close>.
\<close>

definition get_url ::
  "string \<Rightarrow> string list option \<Rightarrow> string \<Rightarrow> (string \<times> filter_value) list \<Rightarrow> error + string"
where
  "get_url module_name flds srt filters =
     (let url =
            (case flds of
               Some (f # fs) \<Rightarrow>
                 ''/module/'' @ module_name @
                   (''?fields['' @ module_name @ '']='' @ join '','' (f # fs)) @ ''&filter''
             | _ \<Rightarrow> ''/module/'' @ module_name @ ''?filter'')
      in case filter_constructor url filters of
           Inl e \<Rightarrow> Inl e
         | Inr url1 \<Rightarrow>
             (let url2 = take (length url1 - 4) url1
              in Inr (if srt \<noteq> [] then url2 @ ''&sort=-'' @ srt else url2)))"



section \<open>\<^verbatim>\<open>Module.get_all\<close>\<close>








section \<open>Vocabulary of the statements\<close>




text \<open>A client for the examples: it answers every call with an empty JSON object.\<close>

definition ok_response :: response where
  "ok_response = \<lparr>status_code = 200, content = ''{}'', loads = Some (JObj [])\<rparr>"

definition demo :: world where
  "demo =
     \<lparr>cfg_url = ''https://crm.example.com/Api/V8'',
      cfg_client_id = ''id'',
      cfg_client_secret = ''secret'',
      logout_on_exit = False,
      has_session = True,
      has_attr = (\<lambda>m. m \<in> set [''get'', ''post'', ''patch'', ''delete'']),
      token = Some ''t0'',
      atexit_registered = False,
      token_file = Some ''t0'',
      transport = (\<lambda>n. Returned ok_response),
      sent = 0,
      idp = (\<lambda>n. Granted ''t1''),
      fetched = 0,
      trace = []\<rparr>"

definition unauthorized :: response where
  "unauthorized = \<lparr>status_code = 401, content = ''Unauthorized'', loads = None\<rparr>"

definition account :: json where
  "account =
     JObj [(''type'', JStr ''Accounts''), (''id'', JStr ''1''),
           (''attributes'', JObj [(''name'', JStr ''Acme'')])]"

text \<open>
  The call as \<^verbatim>\<open>request\<close> first issues it: the quoted URL, and the serialised payload
  unless \<^verbatim>\<open>parameters\<close> is empty. \<open>refreshed\<close> is the token grant that
  \<^verbatim>\<open>_refresh_token\<close> asks for.
\<close>

definition issued :: "string \<Rightarrow> string \<Rightarrow> json \<Rightarrow> event" where
  "issued m url parameters =
     Call m (quote url ''/:?=&'')
       (if parameters = JStr [] then None else Some (Dumped (JObj [(''data'', parameters)])))"

definition refreshed :: "world \<Rightarrow> event" where
  "refreshed w = FetchToken (tk_url (cfg_url w)) (cfg_client_id w) (cfg_client_secret w)"





section \<open>The retry loop runs at most once\<close>

lemma revoked_done: "revoked m u p d (Suc n) w = (Inr d, w)"
  by (simp add: revoked.simps)

lemma revoked_pass: "status_code d \<noteq> 401 \<Longrightarrow> revoked m u p d n w = (Inr d, w)"
  by (simp add: revoked.simps)

lemma revoked_once:
  "status_code d = 401 \<Longrightarrow>
   revoked m u p d 0 w =
     (case refresh_token w of
        (Inl e, w1) \<Rightarrow> (Inl e, w1)
      | (Inr _, w1) \<Rightarrow>
          (case the_method m u p (Resp d) w1 of
             (Expired, w2) \<Rightarrow> (Inl TokenExpiredError, w2)
           | (Raised e, w2) \<Rightarrow> (Inl (TransportError e), w2)
           | (Returned d', w2) \<Rightarrow> (Inr d', w2)))"
  by (subst revoked.simps) (simp add: revoked_done split: prod.splits sum.splits outcome.splits)

section \<open>Request execution\<close>

text \<open>
  Claim C1. A call answered with status 401 is followed by one token refresh and one more
  call to the same URL with the same method, and no third call. That further call is
  not the same call when the request carries a payload: the variable \<^verbatim>\<open>data\<close> holds
  the 401 response by then, and the retry sends that response object as its body instead
  of the serialised payload. The theorem runs a \<^verbatim>\<open>post\<close> with a payload against a
  server that answers 401 once, and a bodyless \<^verbatim>\<open>get\<close> against a server that answers
  401 every time: the latter exits as unauthorized after one refresh and two calls.
\<close>

theorem revoked_retry_sends_response:
  "trace (snd (request (demo\<lparr>transport := (\<lambda>n. if n = 0 then Returned unauthorized
                                                 else Returned ok_response)\<rparr>)
                 ''https://crm.example.com/Api/V8/module'' ''post'' account))
   = [Call ''post'' ''https://crm.example.com/Api/V8/module''
        (Some (Dumped (JObj [(''data'', account)]))),
      FetchToken ''https://crm.example.com/Api/access_token'' ''id'' ''secret'',
      Call ''post'' ''https://crm.example.com/Api/V8/module'' (Some (Resp unauthorized))] \<and>
   request (demo\<lparr>transport := (\<lambda>n. Returned unauthorized)\<rparr>)
       ''https://crm.example.com/Api/V8/module'' ''get'' (JStr [])
   = (Inl (SystemExit
        (''401 (Unauthorized) client id/secret has been revoked, '' @
         ''                new token was attempted and failed.'')),
      demo\<lparr>transport := (\<lambda>n. Returned unauthorized), sent := 2, fetched := 1,
        token := Some ''t1'', token_file := Some ''t1'',
        trace :=
          [Call ''get'' ''https://crm.example.com/Api/V8/module'' None,
           FetchToken ''https://crm.example.com/Api/access_token'' ''id'' ''secret'',
           Call ''get'' ''https://crm.example.com/Api/V8/module'' None]\<rparr>)"
  by (simp add: request_def first_try_def the_method_def revoked_once revoked_pass
      refresh_token_def fetch_token_def tk_url_def open_w_plus_def file_write_def file_read_def
      demo_def unauthorized_def ok_response_def account_def quote_def quote_byte_def
      always_safe_def conclude_def Let_def)



section \<open>Query construction\<close>

text \<open>
  Claim C2. With no filters the loop emits nothing, and the slice \<^verbatim>\<open>url[:-4]\<close> still
  removes four characters: the opener \<^verbatim>\<open>?filter\<close> is cut down to \<^verbatim>\<open>?fi\<close>.
\<close>

theorem get_url_no_filters:
  "get_url module_name None [] [] = Inr (''/module/'' @ module_name @ ''?fi'')"
  by (simp add: get_url_def)

text \<open>
  Claim C5. The documented example: the \<^verbatim>\<open>name\<close> field of \<^verbatim>\<open>Contacts\<close> is selected,
  the two filter terms follow the opener in the order given, each closed by \<^verbatim>\<open>and&\<close>
  with the last one stripped, and the string ends with the descending sort on
  \<^verbatim>\<open>date_entered\<close>.
\<close>

theorem get_url_example:
  "get_url ''Contacts'' (Some [''name'']) ''date_entered''
     [(''status'', Plain ''Active''),
      (''date_start'', Dict [(''operator'', ''>''), (''value'', ''2020-05-08T09:59:00+00:00'')])]
   = Inr (''/module/Contacts'' @ ''?fields[Contacts]=name'' @ ''&filter'' @
          ''[status][eq]=Active'' @ ''and&'' @
          ''[date_start][GT]=2020-05-08T09:59:00+00:00'' @
          ''&sort=-date_entered'')"
  by (simp add: get_url_def filter_term_def getitem_def operators_def)

section \<open>The token endpoint\<close>





section \<open>The persisted token\<close>

text \<open>
  Claim C8. The load step of \<^verbatim>\<open>_login\<close> opens the token file in mode \<^verbatim>\<open>w+\<close>, which
  truncates it, so what it reads after a save is the empty string and never the saved
  token: a fresh session fetches a new token although one was persisted.
\<close>

theorem login_ignores_saved_token:
  "file_read (open_w_plus (file_write ''saved'' (open_w_plus demo))) = [] \<and>
   token (snd (login (demo\<lparr>has_session := False, token := None, token_file := Some ''saved''\<rparr>)))
     = Some ''t1'' \<and>
   trace (snd (login (demo\<lparr>has_session := False, token := None, token_file := Some ''saved''\<rparr>)))
     = [FetchToken ''https://crm.example.com/Api/access_token'' ''id'' ''secret'']"
  by (simp add: login_def demo_def open_w_plus_def file_read_def file_write_def
      refresh_token_def fetch_token_def tk_url_def)

section \<open>The retry after a local expiry signal\<close>



section \<open>Structured filters\<close>







section \<open>Logout\<close>

lemma refresh_token_trace: "trace (snd (refresh_token w)) = trace w @ [refreshed w]"
  by (simp add: refresh_token_def fetch_token_def open_w_plus_def file_write_def refreshed_def
      split: grant.splits)

lemma the_method_trace:
  "trace (snd (the_method m u p d w)) = trace w @ [Call m u (if p = JStr [] then None else Some d)]"
  by (simp add: the_method_def)

lemma revoked_trace: "\<exists>rest. trace (snd (revoked m u p d 0 w)) = trace w @ rest"
proof (cases "status_code d = 401")
  case False
  then show ?thesis by (simp add: revoked_pass)
next
  case True
  obtain res w1 where r: "refresh_token w = (res, w1)"
    by (cases "refresh_token w")
  then have t1: "trace w1 = trace w @ [refreshed w]"
    using refresh_token_trace [of w] by simp
  show ?thesis
  proof (cases res)
    case (Inl e)
    then show ?thesis
      using True r t1 by (simp add: revoked_once)
  next
    case (Inr x)
    obtain out w2 where m: "the_method m u p (Resp d) w1 = (out, w2)"
      by (cases "the_method m u p (Resp d) w1")
    then have "trace w2 = trace w1 @ [Call m u (if p = JStr [] then None else Some (Resp d))]"
      using the_method_trace [of m u p "Resp d" w1] by simp
    then show ?thesis
      using True r t1 Inr m by (cases out) (simp_all add: revoked_once)
  qed
qed

lemma first_try_trace:
  "\<exists>rest. trace (snd (first_try m u p d w)) =
     trace w @ Call m u (if p = JStr [] then None else Some d) # rest"
  by (simp add: first_try_def the_method_def refresh_token_def fetch_token_def open_w_plus_def
      file_write_def split: outcome.splits grant.splits)

lemma request_trace:
  assumes "has_attr w m"
  shows "\<exists>rest. trace (snd (request w url m p)) = trace w @ issued m url p # rest"
proof -
  define u where "u = quote url ''/:?=&''"
  define d where "d = Dumped (JObj [(''data'', p)])"
  obtain res w1 where f: "first_try m u p d w = (res, w1)"
    by (cases "first_try m u p d w")
  obtain rest1 where t1: "trace w1 = trace w @ issued m url p # rest1"
    using first_try_trace [of m u p d w] f by (auto simp: issued_def u_def d_def)
  show ?thesis
  proof (cases res)
    case (Inl e)
    then show ?thesis
      using assms f t1 by (simp add: request_def u_def d_def)
  next
    case (Inr r)
    obtain res2 w2 where v: "revoked m u p r 0 w1 = (res2, w2)"
      by (cases "revoked m u p r 0 w1")
    obtain rest2 where "trace w2 = trace w1 @ rest2"
      using revoked_trace [of m u p r w1] v by auto
    then have "trace w2 = trace w @ issued m url p # (rest1 @ rest2)"
      using t1 by simp
    then show ?thesis
      using assms f Inr v by (cases res2) (simp_all add: request_def u_def d_def)
  qed
qed
lemma demo_logout_request:
  "request demo (cfg_url demo @ ''/logout'') ''post'' (JStr []) =
     (Inr (JObj []),
      demo\<lparr>sent := 1, trace := [Call ''post'' ''https://crm.example.com/Api/V8/logout'' None]\<rparr>)"
  by (simp add: request_def first_try_def the_method_def revoked_pass conclude_def
      demo_def ok_response_def quote_def quote_byte_def always_safe_def Let_def)

lemma failing_logout_request:
  "request (demo\<lparr>transport := (\<lambda>n. Raised ''ConnectionError'')\<rparr>)
       (cfg_url (demo\<lparr>transport := (\<lambda>n. Raised ''ConnectionError'')\<rparr>) @ ''/logout'')
       ''post'' (JStr []) =
     (Inl (TransportError ''ConnectionError''),
      demo\<lparr>transport := (\<lambda>n. Raised ''ConnectionError''), sent := 1,
           trace := [Call ''post'' ''https://crm.example.com/Api/V8/logout'' None]\<rparr>)"
  by (simp add: request_def first_try_def the_method_def
      demo_def quote_def quote_byte_def always_safe_def Let_def)

text \<open>
  Claim C9, as stated, fails when the logout request does not return: a transport
  failure, or a second 401 after the refresh, leaves a token in the file.
\<close>

theorem logout_keeps_token_counterexample:
  "token_file (snd (logout (demo\<lparr>transport := (\<lambda>n. Raised ''ConnectionError'')\<rparr>))) = Some ''t0'' \<and>
   token_file (snd (logout (demo\<lparr>transport := (\<lambda>n. Returned unauthorized)\<rparr>))) = Some ''t1''"
  by (simp add: logout_def request_def first_try_def the_method_def revoked_once conclude_def
      refresh_token_def fetch_token_def open_w_plus_def file_write_def file_read_def
      unauthorized_def demo_def Let_def)

text \<open>
  Claim C9, amended. With a \<^verbatim>\<open>post\<close> method on the session, the first thing
  \<^verbatim>\<open>_logout\<close> does is to issue the bodyless \<^verbatim>\<open>post\<close> to the base URL followed by
  \<^verbatim>\<open>/logout\<close>. Whenever that request returns a parsed body, whatever its status, the
  token file is empty afterwards. When the request raises or exits, \<^verbatim>\<open>_logout\<close>
  raises the same and writes nothing.
\<close>

theorem logout_clears_after_return:
  "(has_attr w ''post'' \<longrightarrow>
      (\<exists>rest. trace (snd (logout w)) =
         trace w @ issued ''post'' (cfg_url w @ ''/logout'') (JStr []) # rest)) \<and>
   (fst (request w (cfg_url w @ ''/logout'') ''post'' (JStr [])) = Inr j \<longrightarrow>
      fst (logout w) = Inr () \<and> token_file (snd (logout w)) = Some []) \<and>
   (fst (request w (cfg_url w @ ''/logout'') ''post'' (JStr [])) = Inl e \<longrightarrow>
      logout w = (Inl e, snd (request w (cfg_url w @ ''/logout'') ''post'' (JStr []))))"
proof (intro conjI impI)
  assume "has_attr w ''post''"
  then obtain rest where
    "trace (snd (request w (cfg_url w @ ''/logout'') ''post'' (JStr []))) =
       trace w @ issued ''post'' (cfg_url w @ ''/logout'') (JStr []) # rest"
    using request_trace by blast
  then show "\<exists>rest. trace (snd (logout w)) =
      trace w @ issued ''post'' (cfg_url w @ ''/logout'') (JStr []) # rest"
    by (cases "request w (cfg_url w @ ''/logout'') ''post'' (JStr [])")
      (auto simp: logout_def open_w_plus_def file_write_def split: sum.splits)
next
  assume "fst (request w (cfg_url w @ ''/logout'') ''post'' (JStr [])) = Inr j"
  then show "fst (logout w) = Inr ()"
    by (cases "request w (cfg_url w @ ''/logout'') ''post'' (JStr [])")
      (simp add: logout_def)
next
  assume "fst (request w (cfg_url w @ ''/logout'') ''post'' (JStr [])) = Inr j"
  then show "token_file (snd (logout w)) = Some []"
    by (cases "request w (cfg_url w @ ''/logout'') ''post'' (JStr [])")
      (simp add: logout_def open_w_plus_def file_write_def file_read_def)
next
  assume "fst (request w (cfg_url w @ ''/logout'') ''post'' (JStr [])) = Inl e"
  then show "logout w = (Inl e, snd (request w (cfg_url w @ ''/logout'') ''post'' (JStr [])))"
    by (cases "request w (cfg_url w @ ''/logout'') ''post'' (JStr [])")
      (simp add: logout_def)
qed

theorem logout_clears_after_return_witness:
  "fst (logout demo) = Inr () \<and> token_file (snd (logout demo)) = Some [] \<and>
   (\<exists>rest. trace (snd (logout demo)) =
      Call ''post'' ''https://crm.example.com/Api/V8/logout'' None # rest) \<and>
   fst (logout (demo\<lparr>transport := (\<lambda>n. Raised ''ConnectionError'')\<rparr>)) =
     Inl (TransportError ''ConnectionError'')"
  using logout_clears_after_return [of demo "JObj []"]
    logout_clears_after_return
      [of "demo\<lparr>transport := (\<lambda>n. Raised ''ConnectionError'')\<rparr>" _ "TransportError ''ConnectionError''"]
    demo_logout_request failing_logout_request
  by (simp add: issued_def quote_def quote_byte_def always_safe_def demo_def)

section \<open>Pagination\<close>






end
